theory Spec2Isabelle
  imports Complex_Main "HOL-Library.Multiset" "HOL-Library.Product_Lexorder"
begin

section \<open>Data model\<close>

text \<open>
  The advertisement record of \<^verbatim>\<open>ads.json\<close>, as the two \<^verbatim>\<open>interface Ad\<close> declarations
  (\<^verbatim>\<open>app.ts\<close> and \<^verbatim>\<open>chatbot/chatHandler.ts\<close>) describe it. Both modules parse the same file,
  so one record with the union of the fields serves both. A JavaScript \<^verbatim>\<open>number\<close> is
  modelled as a real: the catalog is JSON, which cannot carry NaN, and rounding error of
  double arithmetic is outside the model.
\<close>

record Ad =
  ad_id :: string
  businessName :: string
  description :: string
  imageUrl :: string
  websiteUrl :: string
  latitude :: real
  longitude :: real
  radius :: real
  active :: bool
  priority :: real

text \<open>The object \<^verbatim>\<open>{ ...ad, distance }\<close> built by both pipelines.\<close>

record AdWithDistance = Ad +
  distance :: real

definition withDistance :: "Ad \<Rightarrow> real \<Rightarrow> AdWithDistance" where
  "withDistance ad d = Ad.extend ad (AdWithDistance.fields d)"

text \<open>
  The catalog store: \<open>None\<close> when \<^verbatim>\<open>readFileSync\<close> or \<^verbatim>\<open>JSON.parse\<close> throws, the parsed
  array otherwise.
\<close>

type_synonym store = "Ad list option"

text \<open>
  \<^verbatim>\<open>calculateDistance\<close> lives in \<^verbatim>\<open>utils/distance.ts\<close>, which is not among the sources; every
  function that calls it takes it as the parameter \<open>calc\<close>
  (user latitude, user longitude, ad latitude, ad longitude, result in meters).
\<close>

type_synonym distanceFn = "real \<Rightarrow> real \<Rightarrow> real \<Rightarrow> real \<Rightarrow> real"

text \<open>\<^verbatim>\<open>Math.round\<close>: the nearest integer, a tie going up.\<close>

definition Math_round :: "real \<Rightarrow> real" where
  "Math_round x = of_int \<lfloor>x + 1 / 2\<rfloor>"

section \<open>Sorting with a comparator\<close>

text \<open>
  \<^verbatim>\<open>Array.prototype.sort(cmp)\<close> is a stable sort (ECMAScript 2019): with a consistent
  comparator its result is the one stable sorted permutation of the input, which
  insertion from the right computes. An element goes in front of the first element it
  does not compare greater than.
\<close>

fun insertBy :: "('a \<Rightarrow> 'a \<Rightarrow> real) \<Rightarrow> 'a \<Rightarrow> 'a list \<Rightarrow> 'a list" where
  "insertBy cmp x [] = [x]"
| "insertBy cmp x (y # ys) = (if cmp x y \<le> 0 then x # y # ys else y # insertBy cmp x ys)"

definition sortBy :: "('a \<Rightarrow> 'a \<Rightarrow> real) \<Rightarrow> 'a list \<Rightarrow> 'a list" where
  "sortBy cmp xs = foldr (insertBy cmp) xs []"

section \<open>The recommendation pipeline of app.ts\<close>

text \<open>The comparator of lines 97 to 103: priority first, then distance.\<close>

definition compareAds :: "AdWithDistance \<Rightarrow> AdWithDistance \<Rightarrow> real" where
  "compareAds a b =
     (if priority a \<noteq> priority b then priority a - priority b
      else distance a - distance b)"

definition rank :: "AdWithDistance list \<Rightarrow> AdWithDistance list" where
  "rank ms = sortBy compareAds ms"

text \<open>
  Lines 82 to 96: keep the active records, attach the rounded distance, keep those whose
  rounded distance is within their own radius.
\<close>

definition attachRounded :: "distanceFn \<Rightarrow> real \<Rightarrow> real \<Rightarrow> Ad \<Rightarrow> AdWithDistance" where
  "attachRounded calc userLat userLng ad =
     withDistance ad (Math_round (calc userLat userLng (latitude ad) (longitude ad)))"

definition inRadius :: "distanceFn \<Rightarrow> real \<Rightarrow> real \<Rightarrow> Ad list \<Rightarrow> AdWithDistance list" where
  "inRadius calc userLat userLng ads =
     filter (\<lambda>ad. distance ad \<le> radius ad)
       (map (attachRounded calc userLat userLng) (filter active ads))"

definition matchingAds :: "distanceFn \<Rightarrow> real \<Rightarrow> real \<Rightarrow> Ad list \<Rightarrow> AdWithDistance list" where
  "matchingAds calc userLat userLng ads = rank (inRadius calc userLat userLng ads)"

section \<open>Travel-time enrichment\<close>

text \<open>
  What one \<^verbatim>\<open>fetch\<close> of the routing service can do: reject with \<^verbatim>\<open>AbortError\<close> when the
  five-second timer fires, reject with any other error, or resolve with a response. Of a
  response the code reads the \<^verbatim>\<open>content-type\<close> header and the body; the HTTP status is
  part of the response but the handler never reads it. A body is \<open>Unparsable\<close> when
  \<^verbatim>\<open>osrmResponse.json()\<close> throws; otherwise it is the envelope with its \<^verbatim>\<open>code\<close> and its
  \<^verbatim>\<open>routes\<close> (absent, or the list of the routes' durations in seconds).
\<close>

datatype OsrmBody = Unparsable | OsrmData string "real list option"

record FetchResponse =
  status :: nat
  contentType :: "string option"
  body :: OsrmBody

datatype FetchOutcome = Aborted | Rejected | Responded FetchResponse

text \<open>\<^verbatim>\<open>String.prototype.includes\<close>.\<close>

fun startsWith :: "string \<Rightarrow> string \<Rightarrow> bool" where
  "startsWith s [] = True"
| "startsWith [] (p # ps) = False"
| "startsWith (c # cs) (p # ps) = (c = p \<and> startsWith cs ps)"

fun includesStr :: "string \<Rightarrow> string \<Rightarrow> bool" where
  "includesStr [] p = (p = [])"
| "includesStr (c # cs) p = (startsWith (c # cs) p \<or> includesStr cs p)"

text \<open>The entry of the response for one candidate (lines 125 to 134, 144 to 153, 160 to 169).\<close>

record Recommendation =
  rec_id :: string
  rec_businessName :: string
  rec_imageUrl :: string
  rec_websiteUrl :: string
  rec_latitude :: real
  rec_longitude :: real
  rec_distance :: real
  duration :: "real option"

definition toRecommendation :: "AdWithDistance \<Rightarrow> real option \<Rightarrow> Recommendation" where
  "toRecommendation ad dur =
     \<lparr>rec_id = ad_id ad, rec_businessName = businessName ad, rec_imageUrl = imageUrl ad,
      rec_websiteUrl = websiteUrl ad, rec_latitude = latitude ad,
      rec_longitude = longitude ad, rec_distance = distance ad, duration = dur\<rparr>"

text \<open>
  Lines 139 to 142: the duration read from a parsed envelope.
\<close>

fun envelopeDuration :: "OsrmBody \<Rightarrow> real option" where
  "envelopeDuration Unparsable = None"
| "envelopeDuration (OsrmData code None) = None"
| "envelopeDuration (OsrmData code (Some [])) = None"
| "envelopeDuration (OsrmData code (Some (d # ds))) =
     (if code = ''Ok'' then Some (Math_round d) else None)"

text \<open>
  The body of the \<^verbatim>\<open>try\<close> with its \<^verbatim>\<open>catch\<close> (lines 111 to 170): a rejected fetch and a
  body that does not parse end in the \<^verbatim>\<open>catch\<close>, a missing or non-JSON content type in
  the early return; all three give no duration.
\<close>

fun fetchedDuration :: "FetchOutcome \<Rightarrow> real option" where
  "fetchedDuration Aborted = None"
| "fetchedDuration Rejected = None"
| "fetchedDuration (Responded r) =
     (case contentType r of
        None \<Rightarrow> None
      | Some ct \<Rightarrow>
          if ct = [] \<or> \<not> includesStr ct ''application/json'' then None
          else envelopeDuration (body r))"

definition enrichOne :: "AdWithDistance \<Rightarrow> FetchOutcome \<Rightarrow> Recommendation" where
  "enrichOne ad out = toRecommendation ad (fetchedDuration out)"

text \<open>
  \<^verbatim>\<open>Promise.all(matchingAds.map(...))\<close>: one request per candidate, the results in the
  order of the candidates. \<open>route i\<close> is what the routing service does with the request
  for the candidate at position \<open>i\<close>.
\<close>

definition adsWithDuration :: "(nat \<Rightarrow> FetchOutcome) \<Rightarrow> AdWithDistance list \<Rightarrow> Recommendation list" where
  "adsWithDuration route ms = map (\<lambda>(i, ad). enrichOne ad (route i)) (enumerate 0 ms)"

section \<open>The request handler of /api/ads/recommendations\<close>

text \<open>
  What the handler does to the outside world, in order: reading the catalog file,
  computing a distance, sending a routing request.
\<close>

datatype event =
    CatalogRead
  | DistanceCall real real real real
  | RouteRequest real real real real

text \<open>The value of \<^verbatim>\<open>parseFloat\<close>, a JavaScript built-in taken as a parameter.\<close>

datatype jsfloat = NaN | NegInfinity | Finite real | Infinity

text \<open>\<^verbatim>\<open>x < lo || x > hi\<close> on such a value; every comparison with NaN is false.\<close>

fun outOfRange :: "real \<Rightarrow> real \<Rightarrow> jsfloat \<Rightarrow> bool" where
  "outOfRange lo hi NaN = False"
| "outOfRange lo hi NegInfinity = True"
| "outOfRange lo hi Infinity = True"
| "outOfRange lo hi (Finite x) = (x < lo \<or> x > hi)"

datatype HttpResponse =
    Status400 string string
  | Status200 "Recommendation list" nat "string option"

text \<open>\<^verbatim>\<open>getAds\<close> of \<^verbatim>\<open>app.ts\<close> (lines 31 to 40): the parsed file, or the empty list on any error.\<close>

definition getAds :: "store \<Rightarrow> Ad list" where
  "getAds st = (case st of None \<Rightarrow> [] | Some ads \<Rightarrow> ads)"

definition serve ::
  "store \<Rightarrow> distanceFn \<Rightarrow> (nat \<Rightarrow> FetchOutcome) \<Rightarrow> real \<Rightarrow> real \<Rightarrow> event list \<times> HttpResponse" where
  "serve st calc route userLat userLng =
     (let ads = getAds st;
          ms = matchingAds calc userLat userLng ads;
          reads = CatalogRead #
            map (\<lambda>ad. DistanceCall userLat userLng (latitude ad) (longitude ad)) (filter active ads)
      in if length ms > 0
         then (reads @ map (\<lambda>ad. RouteRequest userLng userLat (longitude ad) (latitude ad)) ms,
               Status200 (adsWithDuration route ms) (length ms) None)
         else (reads, Status200 [] 0 (Some ''No ads available in your area'')))"

fun validated ::
  "store \<Rightarrow> distanceFn \<Rightarrow> (nat \<Rightarrow> FetchOutcome) \<Rightarrow> jsfloat \<Rightarrow> jsfloat \<Rightarrow> event list \<times> HttpResponse" where
  "validated st calc route userLat userLng =
     (if userLat = NaN \<or> userLng = NaN
      then ([], Status400 ''Invalid coordinates'' ''Latitude and longitude must be valid numbers'')
      else if outOfRange (- 90) 90 userLat \<or> outOfRange (- 180) 180 userLng
      then ([], Status400 ''Invalid coordinates'' ''Coordinates are out of valid range'')
      else (case (userLat, userLng) of
              (Finite la, Finite lo) \<Rightarrow> serve st calc route la lo
            | _ \<Rightarrow> ([], Status400 ''Invalid coordinates'' ''Coordinates are out of valid range'')))"

text \<open>
  The handler: the two query parameters are absent (\<open>None\<close>) or strings;
  \<^verbatim>\<open>!latitude\<close> holds for an absent and for an empty one.
\<close>

fun recommendations ::
  "(string \<Rightarrow> jsfloat) \<Rightarrow> store \<Rightarrow> distanceFn \<Rightarrow> (nat \<Rightarrow> FetchOutcome) \<Rightarrow>
   string option \<Rightarrow> string option \<Rightarrow> event list \<times> HttpResponse" where
  "recommendations parseFloat st calc route (Some lat) (Some lng) =
     (if lat = [] \<or> lng = []
      then ([], Status400 ''Missing required parameters'' ''Both latitude and longitude are required'')
      else validated st calc route (parseFloat lat) (parseFloat lng))"
| "recommendations parseFloat st calc route _ _ =
     ([], Status400 ''Missing required parameters'' ''Both latitude and longitude are required'')"

section \<open>The conversational path of chatbot/chatHandler.ts\<close>

datatype error = CatalogUnavailable | MissingApiKey | GenerationFailed

text \<open>\<^verbatim>\<open>getAds\<close> of \<^verbatim>\<open>chatHandler.ts\<close> (lines 30 to 34): no \<^verbatim>\<open>try\<close>, so an error propagates.\<close>

definition getAds_chat :: "store \<Rightarrow> error + Ad list" where
  "getAds_chat st = (case st of None \<Rightarrow> Inl CatalogUnavailable | Some ads \<Rightarrow> Inr ads)"

definition compareDistance :: "AdWithDistance \<Rightarrow> AdWithDistance \<Rightarrow> real" where
  "compareDistance a b = distance a - distance b"

definition attachDistance :: "distanceFn \<Rightarrow> real \<Rightarrow> real \<Rightarrow> Ad \<Rightarrow> AdWithDistance" where
  "attachDistance calc userLat userLng ad =
     withDistance ad (calc userLat userLng (latitude ad) (longitude ad))"

text \<open>
  Lines 43 to 51, the chain applied to the catalog: first the active records with their
  distances that lie within \<open>maxDistance\<close>, then the sort and the slice.
\<close>

definition withinDistance :: "distanceFn \<Rightarrow> real \<Rightarrow> real \<Rightarrow> real \<Rightarrow> Ad list \<Rightarrow> AdWithDistance list" where
  "withinDistance calc userLat userLng maxDistance ads =
     filter (\<lambda>ad. distance ad \<le> maxDistance)
       (map (attachDistance calc userLat userLng) (filter active ads))"

definition nearest :: "distanceFn \<Rightarrow> real \<Rightarrow> real \<Rightarrow> real \<Rightarrow> Ad list \<Rightarrow> AdWithDistance list" where
  "nearest calc userLat userLng maxDistance ads =
     take 5 (sortBy compareDistance (withinDistance calc userLat userLng maxDistance ads))"

fun getNearbyAds ::
  "store \<Rightarrow> distanceFn \<Rightarrow> (real \<times> real) option \<Rightarrow> real \<Rightarrow>
   event list \<times> (error + AdWithDistance list)" where
  "getNearbyAds st calc None maxDistance = ([], Inr [])"
| "getNearbyAds st calc (Some (userLat, userLng)) maxDistance =
     (case getAds_chat st of
        Inl e \<Rightarrow> ([CatalogRead], Inl e)
      | Inr ads \<Rightarrow>
          (CatalogRead #
             map (\<lambda>ad. DistanceCall userLat userLng (latitude ad) (longitude ad)) (filter active ads),
           Inr (nearest calc userLat userLng maxDistance ads)))"

text \<open>The default of the parameter \<^verbatim>\<open>maxDistance\<close>, which the only call site relies on.\<close>

definition defaultMaxDistance :: real where
  "defaultMaxDistance = 20000"

subsection \<open>Division of doubles\<close>

text \<open>
  The numbers of the code are IEEE 754 doubles. Comparing two of them, taking the sign
  of their difference and \<^verbatim>\<open>Math.round\<close> are exact, so the reals model them elsewhere.
  A division is not: its result is the double nearest to the exact quotient, a tie going
  to the even significand, and the formatter below prints that double, not the
  quotient. \<open>floorLog2 x\<close> is the binary exponent of a positive \<open>x\<close>, \<open>ulpExponent x\<close>
  the exponent of the spacing of the doubles around \<open>x\<close> (53 significant bits, and
  \<open>2\<^sup>-\<^sup>1\<^sup>0\<^sup>7\<^sup>4\<close> below the normal range), \<open>toDouble x\<close> the double nearest to \<open>x\<close>.
  Quotients beyond the largest double, which would be infinite, do not arise from
  dividing a double by a number above 1.
\<close>

function floorLog2 :: "real \<Rightarrow> int" where
  "floorLog2 x =
     (if x \<le> 0 then 0
      else if x < 1 then floorLog2 (2 * x) - 1
      else if 2 \<le> x then floorLog2 (x / 2) + 1
      else 0)"
  by pat_completeness auto
termination
proof (relation "measure (\<lambda>x. nat \<bar>\<lfloor>log 2 x\<rfloor>\<bar>)")
  show "wf (measure (\<lambda>x. nat \<bar>\<lfloor>log 2 x\<rfloor>\<bar>))"
    by simp
next
  fix x :: real
  assume "\<not> x \<le> 0" and "x < 1"
  then have "log 2 (2 * x) = 1 + log 2 x" and "log 2 x < 0"
    by (simp_all add: log_mult)
  then have "\<lfloor>log 2 (2 * x)\<rfloor> = 1 + \<lfloor>log 2 x\<rfloor>" and "\<lfloor>log 2 x\<rfloor> < 0"
    by (simp_all add: floor_less_iff)
  then have "nat \<bar>\<lfloor>log 2 (2 * x)\<rfloor>\<bar> < nat \<bar>\<lfloor>log 2 x\<rfloor>\<bar>"
    by linarith
  then show "(2 * x, x) \<in> measure (\<lambda>x. nat \<bar>\<lfloor>log 2 x\<rfloor>\<bar>)"
    by simp
next
  fix x :: real
  assume "\<not> x \<le> 0" and "\<not> x < 1" and "2 \<le> x"
  then have "log 2 (x / 2) = log 2 x - 1" and "1 \<le> log 2 x"
    by (simp_all add: log_divide)
  then have "\<lfloor>log 2 (x / 2)\<rfloor> = \<lfloor>log 2 x\<rfloor> - 1" and "1 \<le> \<lfloor>log 2 x\<rfloor>"
    by (simp_all add: le_floor_iff)
  then have "nat \<bar>\<lfloor>log 2 (x / 2)\<rfloor>\<bar> < nat \<bar>\<lfloor>log 2 x\<rfloor>\<bar>"
    by linarith
  then show "(x / 2, x) \<in> measure (\<lambda>x. nat \<bar>\<lfloor>log 2 x\<rfloor>\<bar>)"
    by simp
qed

declare floorLog2.simps [simp del]

text \<open>The integer nearest to \<open>y\<close>, the even one of two.\<close>

definition roundHalfEven :: "real \<Rightarrow> int" where
  "roundHalfEven y =
     (let f = \<lfloor>y\<rfloor>
      in if y - of_int f < 1 / 2 then f
         else if 1 / 2 < y - of_int f then f + 1
         else if even f then f else f + 1)"

definition ulpExponent :: "real \<Rightarrow> int" where
  "ulpExponent x = max (floorLog2 \<bar>x\<bar>) (- 1022) - 52"

definition toDouble :: "real \<Rightarrow> real" where
  "toDouble x = 2 powi ulpExponent x * of_int (roundHalfEven (x / 2 powi ulpExponent x))"

text \<open>The operator \<^verbatim>\<open>/\<close> on two doubles.\<close>

definition divDouble :: "real \<Rightarrow> real \<Rightarrow> real" where
  "divDouble a b = toDouble (a / b)"

text \<open>The divisor of the miles: the double that the literal \<^verbatim>\<open>1609.34\<close> denotes.\<close>

definition metersPerMile :: real where
  "metersPerMile = toDouble 1609.34"

subsection \<open>Formatting\<close>

text \<open>The character of a decimal digit.\<close>

definition digitChar :: "nat \<Rightarrow> char" where
  "digitChar d = (if d < 10 then ''0123456789'' ! d else CHR ''?'')"

fun showNat :: "nat \<Rightarrow> string" where
  "showNat n = (if n < 10 then [digitChar n] else showNat (n div 10) @ [digitChar (n mod 10)])"

declare showNat.simps [simp del]

text \<open>
  \<^verbatim>\<open>Number.prototype.toFixed(1)\<close> on a double \<open>x\<close>: the sign, then the integer \<open>n\<close> with
  \<open>n / 10\<close> nearest to the exact magnitude of \<open>x\<close> (the larger of two), written in decimal
  with one digit after the point. Magnitudes of \<open>10\<^sup>2\<^sup>1\<close> and more, which JavaScript
  prints in exponent notation, do not occur for distances on Earth.
\<close>

definition tenths :: "real \<Rightarrow> nat" where
  "tenths x = nat \<lfloor>\<bar>x\<bar> * 10 + 1 / 2\<rfloor>"

definition toFixed1 :: "real \<Rightarrow> string" where
  "toFixed1 x =
     (if x < 0 then ''-'' else []) @ showNat (tenths x div 10) @ ''.'' @ [digitChar (tenths x mod 10)]"

definition newline :: string where
  "newline = [CHR 0x0A]"

fun join :: "string \<Rightarrow> string list \<Rightarrow> string" where
  "join sep [] = []"
| "join sep [s] = s"
| "join sep (s # t # ss) = s @ sep @ join sep (t # ss)"

text \<open>
  Lines 58 to 62, the template of one entry; \<open>index\<close> counts from 0, and the distance
  of the entry is a double, as \<^verbatim>\<open>calculateDistance\<close> returns it.
\<close>

definition formatAd :: "nat \<Rightarrow> AdWithDistance \<Rightarrow> string" where
  "formatAd index ad =
     (let distanceKm = toFixed1 (divDouble (distance ad) 1000);
          distanceMi = toFixed1 (divDouble (distance ad) metersPerMile)
      in showNat (index + 1) @ ''. '' @ businessName ad @ '' - '' @ description ad
         @ '' ('' @ distanceMi @ '' mi / '' @ distanceKm @ '' km away)''
         @ newline @ ''   Website: '' @ websiteUrl ad)"

definition noNearby :: string where
  "noNearby = ''No nearby businesses available.''"

definition formatAdsContext :: "AdWithDistance list \<Rightarrow> string" where
  "formatAdsContext ads =
     (if length ads = 0 then noNearby
      else join newline (map (\<lambda>(index, ad). formatAd index ad) (enumerate 0 ads)))"

subsection \<open>The chat handler\<close>

text \<open>
  \<^verbatim>\<open>handleChatMessage\<close>, reduced to what decides its response: the API key, the near-set,
  the context block, the text generation. The request body is taken to be well-typed.
  \<open>generate\<close> stands for building the prompt around the context block (with the
  location name, the history and the message, which do not depend on the catalog) and
  calling the generation service; it is \<open>None\<close> when that throws. Every exception inside the \<^verbatim>\<open>try\<close> ends in the \<^verbatim>\<open>catch\<close> of lines 254 to 267,
  which answers with status 500 and a fixed apology.
\<close>

datatype ChatResponse =
    ChatOk string nat
  | ChatFailed error string

definition apology :: string where
  "apology = ''I'm sorry, I'm having trouble right now. Please try again in a moment.''"

definition handleChatMessage ::
  "string option \<Rightarrow> store \<Rightarrow> distanceFn \<Rightarrow> (string \<Rightarrow> string option) \<Rightarrow>
   (real \<times> real) option \<Rightarrow> event list \<times> ChatResponse" where
  "handleChatMessage apiKey st calc generate userLocation =
     (if apiKey = None \<or> apiKey = Some [] then ([], ChatFailed MissingApiKey apology)
      else case getNearbyAds st calc userLocation defaultMaxDistance of
             (evs, Inl e) \<Rightarrow> (evs, ChatFailed e apology)
           | (evs, Inr nearbyAds) \<Rightarrow>
               (case generate (formatAdsContext nearbyAds) of
                  None \<Rightarrow> (evs, ChatFailed GenerationFailed apology)
                | Some responseText \<Rightarrow> (evs, ChatOk responseText (length nearbyAds))))"

section \<open>Kinds of routing outcome\<close>






section \<open>Matches, their distances and their order\<close>

text \<open>A record matches when the filters of lines 82 to 96 let it through.\<close>

definition matches :: "distanceFn \<Rightarrow> real \<Rightarrow> real \<Rightarrow> Ad \<Rightarrow> bool" where
  "matches calc userLat userLng ad \<longleftrightarrow> inRadius calc userLat userLng [ad] \<noteq> []"

text \<open>The distance of a record from the user as \<^verbatim>\<open>calculateDistance\<close> returns it, and rounded.\<close>

definition rawDistance :: "distanceFn \<Rightarrow> real \<Rightarrow> real \<Rightarrow> 'a Ad_scheme \<Rightarrow> real" where
  "rawDistance calc userLat userLng ad = calc userLat userLng (latitude ad) (longitude ad)"

definition roundedDistance :: "distanceFn \<Rightarrow> real \<Rightarrow> real \<Rightarrow> 'a Ad_scheme \<Rightarrow> real" where
  "roundedDistance calc userLat userLng ad = Math_round (rawDistance calc userLat userLng ad)"

text \<open>The key the comparator of the ranking amounts to, and the order it induces.\<close>

definition rankKey :: "AdWithDistance \<Rightarrow> real \<times> real" where
  "rankKey a = (priority a, distance a)"

definition rankedBefore :: "AdWithDistance \<Rightarrow> AdWithDistance \<Rightarrow> bool" where
  "rankedBefore a b \<longleftrightarrow>
     priority a < priority b \<or> (priority a = priority b \<and> distance a \<le> distance b)"

text \<open>The order the specification describes: priority, then the raw distance.\<close>

definition rawBefore :: "distanceFn \<Rightarrow> real \<Rightarrow> real \<Rightarrow> AdWithDistance \<Rightarrow> AdWithDistance \<Rightarrow> bool" where
  "rawBefore calc userLat userLng a b \<longleftrightarrow>
     priority a < priority b
     \<or> (priority a = priority b \<and> rawDistance calc userLat userLng a \<le> rawDistance calc userLat userLng b)"

text \<open>The order on priority, then the rounded distance.\<close>

definition roundedBefore :: "distanceFn \<Rightarrow> real \<Rightarrow> real \<Rightarrow> AdWithDistance \<Rightarrow> AdWithDistance \<Rightarrow> bool" where
  "roundedBefore calc userLat userLng a b \<longleftrightarrow>
     priority a < priority b
     \<or> (priority a = priority b
        \<and> roundedDistance calc userLat userLng a \<le> roundedDistance calc userLat userLng b)"

section \<open>Responses\<close>

text \<open>The request was answered with status 400 and the given error.\<close>

fun rejectedWith :: "string \<Rightarrow> HttpResponse \<Rightarrow> bool" where
  "rejectedWith err (Status400 e msg) = (e = err)"
| "rejectedWith err (Status200 ads n msg) = False"

section \<open>Changing fields the conversational path does not read\<close>



section \<open>Reading a context block\<close>

text \<open>The lines of a text: the pieces between its newline characters.\<close>

fun splitLines :: "string \<Rightarrow> string list" where
  "splitLines [] = [[]]"
| "splitLines (c # cs) =
     (if c = CHR 0x0A then [] # splitLines cs
      else (case splitLines cs of [] \<Rightarrow> [[c]] | l # ls \<Rightarrow> (c # l) # ls))"

definition singleLine :: "string \<Rightarrow> bool" where
  "singleLine s \<longleftrightarrow> CHR 0x0A \<notin> set s"

text \<open>The number a string of decimal digits denotes.\<close>

definition digitsValue :: "string \<Rightarrow> nat" where
  "digitsValue s = foldl (\<lambda>acc c. 10 * acc + (of_char c - 48)) 0 s"

text \<open>
  \<open>s\<close> is the decimal numeral of \<open>n\<close>: not empty, made of the characters 0 to 9 only,
  of value \<open>n\<close>, and without a leading zero unless it is one digit long. There is
  exactly one such string for each \<open>n\<close>.
\<close>

definition isDecimal :: "nat \<Rightarrow> string \<Rightarrow> bool" where
  "isDecimal n s \<longleftrightarrow>
     s \<noteq> [] \<and> set s \<subseteq> set ''0123456789'' \<and> digitsValue s = n
     \<and> (length s = 1 \<or> hd s \<noteq> CHR ''0'')"

text \<open>The first line of an entry, and its second line.\<close>

definition entryLine :: "nat \<Rightarrow> AdWithDistance \<Rightarrow> string" where
  "entryLine index ad =
     showNat (index + 1) @ ''. '' @ businessName ad @ '' - '' @ description ad
     @ '' ('' @ toFixed1 (divDouble (distance ad) metersPerMile) @ '' mi / ''
     @ toFixed1 (divDouble (distance ad) 1000) @ '' km away)''"

definition websiteLine :: "AdWithDistance \<Rightarrow> string" where
  "websiteLine ad = ''   Website: '' @ websiteUrl ad"

text \<open>None of the texts of a record contains a newline.\<close>

definition singleLineAd :: "AdWithDistance \<Rightarrow> bool" where
  "singleLineAd ad \<longleftrightarrow>
     singleLine (businessName ad) \<and> singleLine (description ad) \<and> singleLine (websiteUrl ad)"

section \<open>Example data\<close>

text \<open>
  A stand-in for \<^verbatim>\<open>calculateDistance\<close> in the examples: 111195 m for each degree of
  latitude or longitude between the two points. That is the length, to the meter, of a
  degree of a great circle on a sphere of radius 6371000 m, so for two points on one
  meridian, as in all examples, it is the great-circle distance up to a few millimeters.
\<close>

definition exampleCalc :: distanceFn where
  "exampleCalc userLat userLng adLat adLng = 111195 * (\<bar>adLat - userLat\<bar> + \<bar>adLng - userLng\<bar>)"

text \<open>
  A catalog record on the meridian 0, the given number of meters north of the equator,
  with the fields the examples vary.
\<close>

definition exampleAd :: "string \<Rightarrow> real \<Rightarrow> real \<Rightarrow> bool \<Rightarrow> real \<Rightarrow> Ad" where
  "exampleAd name north rad act prio =
     \<lparr>ad_id = name, businessName = name, description = ''Coffee'', imageUrl = ''/img.png'',
      websiteUrl = ''https://example.com'', latitude = north / 111195, longitude = 0, radius = rad,
      active = act, priority = prio\<rparr>"

text \<open>
  With the user at (0, 0), \<open>farAd\<close> is 1235.4 m away and \<open>nearAd\<close> 1234.6 m;
  \<open>pausedAd\<close> is switched off.
\<close>

definition farAd :: Ad where "farAd = exampleAd ''far'' 1235.4 5000 True 1"
definition nearAd :: Ad where "nearAd = exampleAd ''near'' 1234.6 5000 True 1"
definition pausedAd :: Ad where "pausedAd = exampleAd ''paused'' 1000 5000 False 1"


definition goodRoute :: FetchOutcome where
  "goodRoute =
     Responded \<lparr>status = 200, contentType = Some ''application/json; charset=UTF-8'',
                body = OsrmData ''Ok'' (Some [754.5, 800])\<rparr>"

definition exampleRoute :: "nat \<Rightarrow> FetchOutcome" where
  "exampleRoute i = (if i = 0 then Aborted else goodRoute)"

text \<open>
  Four candidates in catalog order: priorities 2, 1, 1, 2 and rounded distances 2000,
  1235, 1235, 100.
\<close>

definition rankingExample :: "AdWithDistance list" where
  "rankingExample =
     map (attachRounded exampleCalc 0 0)
       [exampleAd ''c'' 2000 5000 True 2, farAd, nearAd, exampleAd ''d'' 100 5000 True 2]"

text \<open>
  \<open>edgeAd\<close> is 5000.4 m from (0, 0), with a radius of 5000 m; \<open>halfAd\<close> is 100.5 m
  away, with a radius of 100.5 m; \<open>rimAd\<close> is 5000 m away, with a radius of 5000 m.
\<close>

definition edgeAd :: Ad where "edgeAd = exampleAd ''edge'' 5000.4 5000 True 1"
definition halfAd :: Ad where "halfAd = exampleAd ''half'' 100.5 100.5 True 1"
definition rimAd :: Ad where "rimAd = exampleAd ''rim'' 5000 5000 True 1"

text \<open>A stand-in for \<^verbatim>\<open>parseFloat\<close> on the query strings of the examples.\<close>

definition exampleParse :: "string \<Rightarrow> jsfloat" where
  "exampleParse s =
     (if s = ''200'' then Finite 200 else if s = ''0'' then Finite 0
      else if s = ''Infinity'' then Infinity else NaN)"

text \<open>A stand-in for the generation service: it answers with the context block it was given.\<close>

definition echoContext :: "string \<Rightarrow> string option" where
  "echoContext context = Some context"


text \<open>
  Two entries of a context block, 350 m and 1450 m away: the quotients 350 / 1000 and
  1450 / 1000 are the doubles just below 0.35 and 1.45.
\<close>

definition twoNearby :: "AdWithDistance list" where
  "twoNearby =
     map (attachDistance exampleCalc 0 0)
       [exampleAd ''first'' 350 1 True 1, exampleAd ''second'' 1450 1 True 1]"

section \<open>Ranking\<close>

lemma compareAds_le_iff: "compareAds a b \<le> 0 \<longleftrightarrow> rankKey a \<le> rankKey b"
  by (auto simp: compareAds_def rankKey_def less_eq_prod_def)

lemma insertBy_compareAds: "insertBy compareAds x ys = insort_key rankKey x ys"
  by (induction ys) (simp_all add: compareAds_le_iff)

lemma sortBy_compareAds: "sortBy compareAds xs = sort_key rankKey xs"
  by (induction xs) (simp_all add: sortBy_def insertBy_compareAds)

lemma rank_sort_key: "rank ms = sort_key rankKey ms"
  by (simp add: rank_def sortBy_compareAds)

lemma rankedBefore_iff: "rankedBefore a b \<longleftrightarrow> rankKey a \<le> rankKey b"
  by (auto simp: rankedBefore_def rankKey_def less_eq_prod_def)

lemma sorted_wrt_rank: "sorted_wrt rankedBefore (rank ms)"
proof -
  have "sorted (map rankKey (rank ms))"
    by (simp add: rank_sort_key)
  then have "sorted_wrt (\<lambda>a b. rankKey a \<le> rankKey b) (rank ms)"
    by (simp add: sorted_map)
  moreover have "(\<lambda>a b. rankKey a \<le> rankKey b) = rankedBefore"
    by (intro ext) (simp add: rankedBefore_iff)
  ultimately show ?thesis by simp
qed

lemma mset_rank: "mset (rank ms) = mset ms"
  by (simp add: rank_sort_key)

lemma rank_stable:
  "filter (\<lambda>m. priority m = p \<and> distance m = d) (rank ms) =
   filter (\<lambda>m. priority m = p \<and> distance m = d) ms"
proof -
  have "(\<lambda>m. priority m = p \<and> distance m = d) = (\<lambda>m. rankKey m = (p, d))"
    by (intro ext) (auto simp: rankKey_def)
  then show ?thesis
    by (simp add: rank_sort_key sort_key_stable)
qed

text \<open>
  C2. Ranking orders the matches by ascending priority and, within one priority, by
  ascending distance; it keeps every match exactly once; matches that agree on priority
  and distance stay in the order of the input (the catalog order); and ranking is a
  function of its input, so two runs on the same sequence give the same sequence.
\<close>

theorem rank_sorted_stable_deterministic:
  "sorted_wrt rankedBefore (rank ms)
   \<and> mset (rank ms) = mset ms
   \<and> filter (\<lambda>m. priority m = p \<and> distance m = d) (rank ms) =
       filter (\<lambda>m. priority m = p \<and> distance m = d) ms
   \<and> (ms' = ms \<longrightarrow> rank ms' = rank ms)"
  using sorted_wrt_rank [of ms] mset_rank [of ms] rank_stable [of p d ms] by simp

theorem rank_sorted_stable_deterministic_witness:
  "map ad_id (rank rankingExample) = [''far'', ''near'', ''d'', ''c'']
   \<and> sorted_wrt rankedBefore (rank rankingExample)"
  using rank_sorted_stable_deterministic [of rankingExample 1 1235 rankingExample]
  by (simp add: rankingExample_def attachRounded_def withDistance_def exampleAd_def exampleCalc_def
      rank_def sortBy_def compareAds_def Math_round_def Ad.extend_def AdWithDistance.fields_def
      farAd_def nearAd_def)

section \<open>Enrichment\<close>









section \<open>Records and their distances\<close>

lemma withDistance_fields:
  "distance (withDistance ad d) = d"
  "latitude (withDistance ad d) = latitude ad"
  "longitude (withDistance ad d) = longitude ad"
  "radius (withDistance ad d) = radius ad"
  "active (withDistance ad d) = active ad"
  "priority (withDistance ad d) = priority ad"
  by (simp_all add: withDistance_def Ad.extend_def AdWithDistance.fields_def)

lemma Math_round_mono: "x \<le> y \<Longrightarrow> Math_round x \<le> Math_round y"
  by (simp add: Math_round_def floor_mono)

lemma Math_round_int: "r \<in> \<int> \<Longrightarrow> Math_round r = r"
  by (auto simp: Math_round_def elim!: Ints_cases)

lemma Math_round_succ_gt: "r < Math_round (r + 1)"
  unfolding Math_round_def by linarith

lemma set_matchingAds: "set (matchingAds calc userLat userLng ads) = set (inRadius calc userLat userLng ads)"
  by (metis matchingAds_def mset_rank set_mset_mset)

lemma matches_iff:
  "matches calc userLat userLng ad \<longleftrightarrow>
     active ad \<and> roundedDistance calc userLat userLng ad \<le> radius ad"
  by (simp add: matches_def inRadius_def attachRounded_def withDistance_fields
      roundedDistance_def rawDistance_def)

lemma inRadius_filter_matches:
  "inRadius calc userLat userLng ads =
   map (attachRounded calc userLat userLng) (filter (matches calc userLat userLng) ads)"
  by (induction ads)
     (simp_all add: inRadius_def matches_iff attachRounded_def withDistance_fields
        roundedDistance_def rawDistance_def)

lemma in_inRadiusD:
  assumes "m \<in> set (inRadius calc userLat userLng ads)"
  shows "\<exists>a \<in> set ads. active a \<and> m = attachRounded calc userLat userLng a"
  using assms by (auto simp: inRadius_def)

lemma distance_inRadius:
  assumes "m \<in> set (inRadius calc userLat userLng ads)"
  shows "distance m = roundedDistance calc userLat userLng m"
  using assms
  by (auto simp: inRadius_def attachRounded_def withDistance_fields roundedDistance_def
      rawDistance_def)

section \<open>The sort key\<close>

lemma priority_attachRounded: "priority (attachRounded calc userLat userLng a) = priority a"
  by (simp add: attachRounded_def withDistance_fields)

lemma roundedDistance_attachRounded:
  "roundedDistance calc userLat userLng (attachRounded calc userLat userLng a)
     = roundedDistance calc userLat userLng a"
  by (simp add: attachRounded_def withDistance_fields roundedDistance_def rawDistance_def)

lemma ties_keep_catalog_order:
  "filter (\<lambda>m. priority m = p \<and> roundedDistance calc userLat userLng m = d)
     (matchingAds calc userLat userLng ads)
   = map (attachRounded calc userLat userLng)
       (filter (\<lambda>a. matches calc userLat userLng a \<and> priority a = p
                    \<and> roundedDistance calc userLat userLng a = d) ads)"
proof -
  let ?ms = "matchingAds calc userLat userLng ads"
  let ?in = "inRadius calc userLat userLng ads"
  have "filter (\<lambda>m. priority m = p \<and> roundedDistance calc userLat userLng m = d) ?ms
          = filter (\<lambda>m. priority m = p \<and> distance m = d) ?ms"
    by (rule filter_cong [OF refl])
       (use distance_inRadius [of _ calc userLat userLng ads] in \<open>simp add: set_matchingAds\<close>)
  also have "\<dots> = filter (\<lambda>m. priority m = p \<and> distance m = d) ?in"
    by (simp add: matchingAds_def rank_stable)
  also have "\<dots> = filter (\<lambda>m. priority m = p \<and> roundedDistance calc userLat userLng m = d) ?in"
    by (rule filter_cong [OF refl])
       (use distance_inRadius [of _ calc userLat userLng ads] in simp)
  also have "\<dots> = map (attachRounded calc userLat userLng)
       (filter (\<lambda>a. matches calc userLat userLng a \<and> priority a = p
                    \<and> roundedDistance calc userLat userLng a = d) ads)"
    by (simp add: inRadius_filter_matches filter_map comp_def priority_attachRounded
        roundedDistance_attachRounded conj_commute conj_left_commute)
  finally show ?thesis .
qed

text \<open>
  C3 as stated fails: the distance is rounded in the \<^verbatim>\<open>map\<close> step, before the filter and
  the sort. With equal priority, the record at 1235.4 m listed first in the catalog
  stays in front of the record at 1234.6 m, since both round to 1235; the output is not
  ordered by raw distance.
\<close>

theorem raw_sort_key_counterexample:
  "matchingAds exampleCalc 0 0 [farAd, nearAd] =
     [attachRounded exampleCalc 0 0 farAd, attachRounded exampleCalc 0 0 nearAd]
   \<and> priority farAd = priority nearAd
   \<and> rawDistance exampleCalc 0 0 nearAd < rawDistance exampleCalc 0 0 farAd
   \<and> \<not> sorted_wrt (rawBefore exampleCalc 0 0) (matchingAds exampleCalc 0 0 [farAd, nearAd])"
  by (simp add: matchingAds_def inRadius_def attachRounded_def withDistance_def exampleAd_def
      exampleCalc_def rank_def sortBy_def compareAds_def Math_round_def Ad.extend_def
      AdWithDistance.fields_def farAd_def nearAd_def rawDistance_def rawBefore_def)

text \<open>
  C3, amended. In the ad-recommendation path the distance stored with a candidate, and
  used as the sort key among candidates of equal priority, is the distance rounded to
  the nearest integer meter: the candidates come out ordered by priority and then by
  rounded distance, each match once, and the candidates that share a priority and a
  rounded distance are the matching catalog records with that priority and rounded
  distance in catalog order. Rounding never inverts an order (it is monotone), and the
  distances 1234.4 m and 1234.6 m round to different values, so those two stay
  distinguishable.
\<close>

theorem sort_key_is_rounded_distance:
  "sorted_wrt (roundedBefore calc userLat userLng) (matchingAds calc userLat userLng ads)
   \<and> (\<forall>m \<in> set (matchingAds calc userLat userLng ads).
        distance m = roundedDistance calc userLat userLng m)
   \<and> mset (matchingAds calc userLat userLng ads) = mset (inRadius calc userLat userLng ads)
   \<and> filter (\<lambda>m. priority m = p \<and> roundedDistance calc userLat userLng m = d)
        (matchingAds calc userLat userLng ads)
       = map (attachRounded calc userLat userLng)
           (filter (\<lambda>a. matches calc userLat userLng a \<and> priority a = p
                        \<and> roundedDistance calc userLat userLng a = d) ads)
   \<and> (x \<le> y \<longrightarrow> Math_round x \<le> Math_round y)
   \<and> Math_round 1234.4 < Math_round 1234.6"
proof -
  let ?ms = "matchingAds calc userLat userLng ads"
  have dist: "distance m = roundedDistance calc userLat userLng m" if "m \<in> set ?ms" for m
    using that distance_inRadius [of m calc userLat userLng ads] by (simp add: set_matchingAds)
  have "sorted_wrt rankedBefore ?ms"
    by (simp add: matchingAds_def sorted_wrt_rank)
  then have "sorted_wrt (roundedBefore calc userLat userLng) ?ms"
    by (rule sorted_wrt_mono_rel [rotated])
       (auto simp: rankedBefore_def roundedBefore_def dist)
  moreover have "Math_round 1234.4 < Math_round 1234.6"
    by (simp add: Math_round_def)
  moreover have "mset ?ms = mset (inRadius calc userLat userLng ads)"
    by (simp add: matchingAds_def mset_rank)
  ultimately show ?thesis
    using dist ties_keep_catalog_order [of p calc userLat userLng d ads]
    by (simp add: Math_round_mono)
qed

theorem sort_key_is_rounded_distance_witness:
  "map ad_id (matchingAds exampleCalc 0 0 [farAd, nearAd]) = [''far'', ''near'']
   \<and> map distance (matchingAds exampleCalc 0 0 [farAd, nearAd]) = [1235, 1235]
   \<and> filter (\<lambda>m. priority m = 1 \<and> roundedDistance exampleCalc 0 0 m = 1235)
        (matchingAds exampleCalc 0 0 [farAd, nearAd])
       = map (attachRounded exampleCalc 0 0) [farAd, nearAd]
   \<and> Math_round 1234.4 \<le> Math_round 1234.6"
proof -
  have m: "matches exampleCalc 0 0 farAd" "matches exampleCalc 0 0 nearAd"
    and p: "priority farAd = 1" "priority nearAd = 1"
    and r: "roundedDistance exampleCalc 0 0 farAd = 1235"
      "roundedDistance exampleCalc 0 0 nearAd = 1235"
    by (simp_all add: matches_iff roundedDistance_def rawDistance_def Math_round_def
        farAd_def nearAd_def exampleAd_def exampleCalc_def)
  have ids: "map ad_id (matchingAds exampleCalc 0 0 [farAd, nearAd]) = [''far'', ''near'']"
    and ds: "map distance (matchingAds exampleCalc 0 0 [farAd, nearAd]) = [1235, 1235]"
    by (simp_all add: matchingAds_def inRadius_def attachRounded_def withDistance_def exampleAd_def
      exampleCalc_def rank_def sortBy_def compareAds_def Math_round_def Ad.extend_def
      AdWithDistance.fields_def farAd_def nearAd_def)
  show ?thesis
    using m p r ids ds
      sort_key_is_rounded_distance [of exampleCalc 0 0 "[farAd, nearAd]" 1 1235 "1234.4" "1234.6"]
    by simp
qed

section \<open>The radius filter\<close>

text \<open>
  C7 as stated fails on the distance between the two points: a record 5000.4 m away with
  a radius of 5000 m matches although its distance exceeds the radius, and a record
  exactly 100.5 m away with a radius of 100.5 m does not match, since the filter
  compares the rounded distance (5000 and 101).
\<close>

theorem radius_boundary_counterexample:
  "matches exampleCalc 0 0 edgeAd
   \<and> radius edgeAd < rawDistance exampleCalc 0 0 edgeAd
   \<and> \<not> matches exampleCalc 0 0 halfAd
   \<and> active halfAd
   \<and> rawDistance exampleCalc 0 0 halfAd = radius halfAd"
  by (simp add: matches_def inRadius_def attachRounded_def withDistance_def exampleAd_def
      exampleCalc_def Math_round_def Ad.extend_def AdWithDistance.fields_def edgeAd_def
      halfAd_def rawDistance_def)

text \<open>
  C7, amended. A catalog record is in the match set exactly when it is active and its
  distance rounded to the nearest meter is at most its own radius; the match set is the
  image of the matching records. The boundary is inclusive: an active record with a
  whole-meter radius at exactly that distance matches, and no record at its radius plus
  one meter does.
\<close>

theorem match_iff_rounded_distance_within_radius:
  "(matches calc userLat userLng ad \<longleftrightarrow>
      active ad \<and> roundedDistance calc userLat userLng ad \<le> radius ad)
   \<and> set (matchingAds calc userLat userLng ads) =
       attachRounded calc userLat userLng ` {a \<in> set ads. matches calc userLat userLng a}
   \<and> (active ad \<and> radius ad \<in> \<int> \<and> rawDistance calc userLat userLng ad = radius ad
        \<longrightarrow> matches calc userLat userLng ad)
   \<and> (rawDistance calc userLat userLng ad = radius ad + 1 \<longrightarrow> \<not> matches calc userLat userLng ad)"
proof -
  have "set (matchingAds calc userLat userLng ads) =
          attachRounded calc userLat userLng ` {a \<in> set ads. matches calc userLat userLng a}"
    by (simp add: set_matchingAds inRadius_filter_matches)
  moreover have "matches calc userLat userLng ad"
    if "active ad" "radius ad \<in> \<int>" "rawDistance calc userLat userLng ad = radius ad"
    using that by (simp add: matches_iff roundedDistance_def Math_round_int)
  moreover have "\<not> matches calc userLat userLng ad"
    if "rawDistance calc userLat userLng ad = radius ad + 1"
    using that Math_round_succ_gt [of "radius ad"]
    by (simp add: matches_iff roundedDistance_def)
  ultimately show ?thesis
    using matches_iff [of calc userLat userLng ad] by blast
qed

theorem match_iff_rounded_distance_within_radius_witness:
  "matches exampleCalc 0 0 rimAd
   \<and> rawDistance exampleCalc 0 0 rimAd = radius rimAd
   \<and> rawDistance exampleCalc (- (1 / 111195)) 0 rimAd = radius rimAd + 1
   \<and> \<not> matches exampleCalc (- (1 / 111195)) 0 rimAd"
proof -
  have a: "active rimAd" and r: "radius rimAd \<in> \<int>"
    and d: "rawDistance exampleCalc 0 0 rimAd = radius rimAd"
    and d1: "rawDistance exampleCalc (- (1 / 111195)) 0 rimAd = radius rimAd + 1"
    by (simp_all add: rimAd_def exampleAd_def rawDistance_def exampleCalc_def)
  show ?thesis
    using a r d d1
      match_iff_rounded_distance_within_radius [of exampleCalc 0 0 rimAd "[rimAd]"]
      match_iff_rounded_distance_within_radius [of exampleCalc "- (1 / 111195)" 0 rimAd "[rimAd]"]
    by blast
qed

section \<open>Active records\<close>

lemma set_nearest_subset:
  "set (nearest calc userLat userLng maxDistance ads)
     \<subseteq> attachDistance calc userLat userLng ` {a \<in> set ads. active a}"
proof -
  have sortBy_set: "set (sortBy compareDistance xs) = set xs" for xs
  proof (induction xs)
    case (Cons x xs)
    have ins: "set (insertBy compareDistance y ys) = insert y (set ys)" for y ys
      by (induction ys) auto
    show ?case using Cons by (simp add: sortBy_def ins)
  qed (simp add: sortBy_def)
  have "set (nearest calc userLat userLng maxDistance ads)
          \<subseteq> set (sortBy compareDistance
                (filter (\<lambda>ad. distance ad \<le> maxDistance)
                   (map (attachDistance calc userLat userLng) (filter active ads))))"
    unfolding nearest_def withinDistance_def by (rule set_take_subset)
  then show ?thesis
    by (auto simp: sortBy_set)
qed

text \<open>
  C4 as stated fails for the catalog read: \<^verbatim>\<open>getAds\<close> returns the parsed file as it is,
  inactive records included, in both modules.
\<close>

theorem catalog_read_counterexample:
  "getAds (Some [pausedAd, nearAd]) = [pausedAd, nearAd]
   \<and> getAds_chat (Some [pausedAd, nearAd]) = Inr [pausedAd, nearAd]
   \<and> \<not> active pausedAd"
  by (simp add: getAds_def getAds_chat_def pausedAd_def exampleAd_def)

text \<open>
  C4, amended. The catalog read returns every record of the store, active or not; each
  pipeline drops the inactive records as its first step. So every match of the
  recommendation path and every entry of the conversational near-set is a record of the
  catalog with \<open>active = True\<close>, extended by its distance.
\<close>

theorem matches_come_from_active_records:
  "getAds (Some ads) = ads
   \<and> getAds_chat (Some ads) = Inr ads
   \<and> (\<forall>m \<in> set (matchingAds calc userLat userLng ads).
        active m \<and> (\<exists>a \<in> set ads. active a \<and> m = attachRounded calc userLat userLng a))
   \<and> (\<forall>m \<in> set (nearest calc userLat userLng maxDistance ads).
        active m \<and> (\<exists>a \<in> set ads. active a \<and> m = attachDistance calc userLat userLng a))"
proof -
  have "active m \<and> (\<exists>a \<in> set ads. active a \<and> m = attachRounded calc userLat userLng a)"
    if "m \<in> set (matchingAds calc userLat userLng ads)" for m
    using that in_inRadiusD [of m calc userLat userLng ads]
    by (auto simp: set_matchingAds attachRounded_def withDistance_fields)
  moreover have "active m \<and> (\<exists>a \<in> set ads. active a \<and> m = attachDistance calc userLat userLng a)"
    if "m \<in> set (nearest calc userLat userLng maxDistance ads)" for m
    using that set_nearest_subset [of calc userLat userLng maxDistance ads]
    by (auto simp: attachDistance_def withDistance_fields)
  ultimately show ?thesis
    by (simp add: getAds_def getAds_chat_def)
qed

theorem matches_come_from_active_records_witness:
  "map ad_id (matchingAds exampleCalc 0 0 [pausedAd, nearAd]) = [''near'']
   \<and> map ad_id (nearest exampleCalc 0 0 20000 [pausedAd, nearAd]) = [''near'']
   \<and> map active (matchingAds exampleCalc 0 0 [pausedAd, nearAd]) = [True]"
  using matches_come_from_active_records [of "[pausedAd, nearAd]" exampleCalc 0 0 20000]
  by (simp add: matchingAds_def inRadius_def attachRounded_def withDistance_def exampleAd_def
      exampleCalc_def rank_def sortBy_def compareAds_def Math_round_def Ad.extend_def
      AdWithDistance.fields_def pausedAd_def nearAd_def nearest_def withinDistance_def
      attachDistance_def compareDistance_def)

section \<open>Validation of the query\<close>

text \<open>
  C6. When the parsed latitude or longitude is NaN, or the latitude lies outside
  [-90, 90] or the longitude outside [-180, 180] (the point (200, 0) for one), the
  handler answers 400 with the error "Invalid coordinates"; it has not read the catalog,
  computed a distance or sent a routing request, and its answer does not depend on the
  store, the distance function or the routing service.
\<close>

theorem invalid_coordinates_rejected:
  assumes "lat \<noteq> []" and "lng \<noteq> []"
    and "parseFloat lat = NaN \<or> parseFloat lng = NaN
         \<or> outOfRange (- 90) 90 (parseFloat lat) \<or> outOfRange (- 180) 180 (parseFloat lng)"
  shows "fst (recommendations parseFloat st calc route (Some lat) (Some lng)) = []
    \<and> rejectedWith ''Invalid coordinates'' (snd (recommendations parseFloat st calc route (Some lat) (Some lng)))
    \<and> recommendations parseFloat st calc route (Some lat) (Some lng) =
        recommendations parseFloat st' calc' route' (Some lat) (Some lng)"
  using assms by auto

theorem invalid_coordinates_rejected_witness:
  "recommendations exampleParse (Some [nearAd]) exampleCalc exampleRoute (Some ''200'') (Some ''0'')
     = ([], Status400 ''Invalid coordinates'' ''Coordinates are out of valid range'')
   \<and> recommendations exampleParse (Some [nearAd]) exampleCalc exampleRoute (Some ''200'') (Some ''0'')
     = recommendations exampleParse None exampleCalc (\<lambda>i. Aborted) (Some ''200'') (Some ''0'')"
proof -
  have "outOfRange (- 90) 90 (exampleParse ''200'')"
    by (simp add: exampleParse_def)
  then show ?thesis
    using invalid_coordinates_rejected [of "''200''" "''0''" exampleParse "Some [nearAd]"
        exampleCalc exampleRoute None exampleCalc "\<lambda>i. Aborted"]
    by (simp add: exampleParse_def)
qed

section \<open>An unreadable catalog\<close>

text \<open>
  C5 holds for the recommendation handler and fails for the chat handler. With the
  store unreadable, a chat request that carries a location ends in the handler's
  \<^verbatim>\<open>catch\<close>: status 500, no generation, the apology as the response. The recommendation
  handler, whose \<^verbatim>\<open>getAds\<close> has the \<^verbatim>\<open>try\<close>, answers 200 with no ads. Without a location
  the chat handler does not read the catalog and is not affected.
\<close>

theorem chat_catalog_unavailable_fails_request:
  "handleChatMessage (Some ''key'') None calc echoContext (Some (47.6062, - 122.3321))
     = ([CatalogRead], ChatFailed CatalogUnavailable apology)
   \<and> serve None calc route 47.6062 (- 122.3321)
     = ([CatalogRead], Status200 [] 0 (Some ''No ads available in your area''))"
  by (simp add: handleChatMessage_def getAds_chat_def serve_def getAds_def matchingAds_def
      inRadius_def rank_def sortBy_def)

section \<open>No location\<close>

text \<open>
  C10. Without a user location the near-set computation returns the empty list and has
  neither read the catalog nor computed a distance, whatever the state of the store; the
  context block of the empty list is the sentinel "No nearby businesses available.", and
  that is the block the chat handler hands to the generation.
\<close>

theorem no_location_empty_near_set:
  "getNearbyAds st calc None maxDistance = ([], Inr [])
   \<and> formatAdsContext [] = ''No nearby businesses available.''
   \<and> (apiKey \<noteq> [] \<and> generate ''No nearby businesses available.'' = Some text \<longrightarrow>
        handleChatMessage (Some apiKey) st calc generate None = ([], ChatOk text 0))"
  by (simp add: formatAdsContext_def noNearby_def handleChatMessage_def)

theorem no_location_empty_near_set_witness:
  "handleChatMessage (Some ''key'') None exampleCalc echoContext None
     = ([], ChatOk ''No nearby businesses available.'' 0)"
  using no_location_empty_near_set [of None exampleCalc 20000 "''key''" echoContext
      "''No nearby businesses available.''"]
  by (simp add: echoContext_def)

section \<open>The conversational near-set\<close>



















section \<open>The context block\<close>

lemma of_char_digitChar_all: "\<forall>d<10. of_char (digitChar d) = 48 + d"
  unfolding digitChar_def by (simp add: numeral_eq_Suc All_less_Suc)

lemma of_char_digitChar: "d < 10 \<Longrightarrow> of_char (digitChar d) = 48 + d"
  using of_char_digitChar_all by blast

lemma digitChar_not_newline: "d < 10 \<Longrightarrow> digitChar d \<noteq> CHR 0x0A"
proof
  assume "d < 10" and "digitChar d = CHR 0x0A"
  then have "(of_char (CHR 0x0A) :: nat) = 48 + d"
    using of_char_digitChar [of d] by simp
  then show False by simp
qed

lemma singleLine_append: "singleLine (s @ t) \<longleftrightarrow> singleLine s \<and> singleLine t"
  by (auto simp: singleLine_def)

lemma singleLine_Nil: "singleLine []"
  by (simp add: singleLine_def)

lemma singleLine_Cons: "singleLine (c # s) \<longleftrightarrow> c \<noteq> CHR 0x0A \<and> singleLine s"
  by (auto simp: singleLine_def)

lemma singleLine_digit: "d < 10 \<Longrightarrow> singleLine [digitChar d]"
  by (simp add: singleLine_Cons singleLine_Nil digitChar_not_newline)

lemma singleLine_showNat: "singleLine (showNat n)"
proof (induction n rule: showNat.induct)
  case (1 n)
  show ?case
  proof (cases "n < 10")
    case True
    then show ?thesis
      by (simp add: showNat.simps [of n] singleLine_digit)
  next
    case False
    then have "singleLine (showNat (n div 10))"
      using "1" by simp
    then show ?thesis
      using False
      by (simp add: showNat.simps [of n] singleLine_append singleLine_digit)
  qed
qed

lemma digitsValue_snoc: "digitsValue (s @ [c]) = 10 * digitsValue s + (of_char c - 48)"
  by (simp add: digitsValue_def)

lemma digitsValue_showNat: "digitsValue (showNat n) = n"
proof (induction n rule: showNat.induct)
  case (1 n)
  show ?case
  proof (cases "n < 10")
    case True
    then show ?thesis
      by (simp add: showNat.simps [of n] digitsValue_def of_char_digitChar)
  next
    case False
    then have "digitsValue (showNat (n div 10)) = n div 10"
      using "1" by simp
    then show ?thesis
      using False
      by (simp add: showNat.simps [of n] digitsValue_snoc of_char_digitChar)
  qed
qed

lemma digitChar_digit_all: "\<forall>d<10. digitChar d \<in> set ''0123456789''"
  unfolding digitChar_def by (simp add: numeral_eq_Suc All_less_Suc)

lemma digitChar_nonzero_all: "\<forall>d<10. 0 < d \<longrightarrow> digitChar d \<noteq> CHR ''0''"
  unfolding digitChar_def by (simp add: numeral_eq_Suc All_less_Suc)

lemma showNat_digit: "n < 10 \<Longrightarrow> showNat n = [digitChar n]"
  by (simp add: showNat.simps [of n])

lemma showNat_step:
  "\<not> n < 10 \<Longrightarrow> showNat n = showNat (n div 10) @ [digitChar (n mod 10)]"
  by (simp add: showNat.simps [of n])

lemma showNat_nonempty: "showNat n \<noteq> []"
  by (cases "n < 10") (simp_all add: showNat_digit showNat_step)

lemma set_showNat: "set (showNat n) \<subseteq> set ''0123456789''"
proof (induction n rule: showNat.induct)
  case (1 n)
  show ?case
  proof (cases "n < 10")
    case True
    then show ?thesis
      using digitChar_digit_all by (simp add: showNat_digit)
  next
    case False
    moreover have "n mod 10 < 10"
      by simp
    ultimately show ?thesis
      using "1" digitChar_digit_all by (simp add: showNat_step)
  qed
qed

lemma hd_showNat: "0 < n \<Longrightarrow> hd (showNat n) \<noteq> CHR ''0''"
proof (induction n rule: showNat.induct)
  case (1 n)
  show ?case
  proof (cases "n < 10")
    case True
    then show ?thesis
      using "1.prems" digitChar_nonzero_all by (simp add: showNat_digit)
  next
    case False
    then have "hd (showNat (n div 10)) \<noteq> CHR ''0''"
      using "1.IH" by simp
    then show ?thesis
      using False by (simp add: showNat_step showNat_nonempty)
  qed
qed

lemma isDecimal_showNat: "isDecimal n (showNat n)"
proof (cases "n = 0")
  case True
  then show ?thesis
    using digitChar_digit_all
    by (simp add: isDecimal_def showNat_digit digitsValue_def of_char_digitChar)
next
  case False
  then show ?thesis
    using hd_showNat [of n] set_showNat [of n]
    by (simp add: isDecimal_def showNat_nonempty digitsValue_showNat)
qed

lemma toFixed1_digits:
  "toFixed1 x =
     (if x < 0 then ''-'' else []) @ showNat (tenths x div 10) @ ''.'' @ showNat (tenths x mod 10)"
  by (simp add: toFixed1_def showNat_digit)

lemma singleLine_toFixed1: "singleLine (toFixed1 x)"
  by (simp add: toFixed1_def singleLine_append singleLine_showNat singleLine_Cons
      singleLine_Nil digitChar_not_newline)

lemma tenths_nearest:
  "- 1 / 20 < real (tenths x) / 10 - \<bar>x\<bar> \<and> real (tenths x) / 10 - \<bar>x\<bar> \<le> 1 / 20"
proof -
  let ?k = "\<lfloor>\<bar>x\<bar> * 10 + 1 / 2\<rfloor>"
  have "0 \<le> ?k"
    by simp
  then have t: "real (tenths x) = of_int ?k"
    by (simp add: tenths_def)
  have "of_int ?k \<le> \<bar>x\<bar> * 10 + 1 / 2" and "\<bar>x\<bar> * 10 + 1 / 2 < of_int ?k + 1"
    by linarith+
  then show ?thesis
    unfolding t by linarith
qed

subsection \<open>Rounding to a double\<close>

lemma floorLog2_bounds:
  "0 < x \<Longrightarrow> 2 powi floorLog2 x \<le> x \<and> x < 2 powi (floorLog2 x + 1)"
proof (induction x rule: floorLog2.induct)
  case (1 x)
  show ?case
  proof (cases "x < 1")
    case True
    then have e: "floorLog2 x = floorLog2 (2 * x) - 1"
      using "1.prems" by (simp add: floorLog2.simps [of x])
    have "2 powi floorLog2 (2 * x) \<le> 2 * x \<and> 2 * x < 2 powi (floorLog2 (2 * x) + 1)"
      using "1.IH"(1) "1.prems" True by simp
    then show ?thesis
      unfolding e by (simp add: power_int_diff power_int_add)
  next
    case False
    show ?thesis
    proof (cases "2 \<le> x")
      case True
      then have e: "floorLog2 x = floorLog2 (x / 2) + 1"
        using False by (simp add: floorLog2.simps [of x])
      have "2 powi floorLog2 (x / 2) \<le> x / 2 \<and> x / 2 < 2 powi (floorLog2 (x / 2) + 1)"
        using "1.IH"(2) "1.prems" False True by simp
      then show ?thesis
        unfolding e by (simp add: power_int_add)
    next
      case below: False
      then have "floorLog2 x = 0"
        using False "1.prems" by (simp add: floorLog2.simps [of x])
      then show ?thesis
        using False below by simp
    qed
  qed
qed

lemma power2_int_less_imp_less:
  assumes "(2 :: real) powi a < 2 powi b"
  shows "a < b"
proof (rule ccontr)
  assume "\<not> a < b"
  then have "(2 :: real) powi b \<le> 2 powi a"
    by (intro power_int_increasing) simp_all
  with assms show False by simp
qed

lemma ulpExponent_normal:
  assumes "2 powi (- 1022) \<le> \<bar>y\<bar>"
  shows "2 powi (ulpExponent y + 52) \<le> \<bar>y\<bar> \<and> \<bar>y\<bar> < 2 powi (ulpExponent y + 53)"
proof -
  have pos: "0 < \<bar>y\<bar>"
    using assms zero_less_power_int [of "2 :: real" "- 1022"] by linarith
  note b = floorLog2_bounds [OF pos]
  have "(2 :: real) powi (- 1022) < 2 powi (floorLog2 \<bar>y\<bar> + 1)"
    using assms b by linarith
  then have "- 1022 < floorLog2 \<bar>y\<bar> + 1"
    by (rule power2_int_less_imp_less)
  then have "ulpExponent y + 52 = floorLog2 \<bar>y\<bar>"
    and "ulpExponent y + 53 = floorLog2 \<bar>y\<bar> + 1"
    by (simp_all add: ulpExponent_def)
  then show ?thesis
    using b by (simp only:)
qed

lemma ulpExponent_subnormal:
  assumes "0 < \<bar>y\<bar>" and "\<bar>y\<bar> < 2 powi (- 1022)"
  shows "ulpExponent y = - 1074"
proof -
  note b = floorLog2_bounds [OF assms(1)]
  have "(2 :: real) powi floorLog2 \<bar>y\<bar> < 2 powi (- 1022)"
    using assms(2) b by linarith
  then have "floorLog2 \<bar>y\<bar> < - 1022"
    by (rule power2_int_less_imp_less)
  then show ?thesis
    by (simp add: ulpExponent_def)
qed

lemma roundHalfEven_nearest:
  "\<bar>z - of_int (roundHalfEven z)\<bar> \<le> 1 / 2
   \<and> (\<bar>z - of_int (roundHalfEven z)\<bar> = 1 / 2 \<longrightarrow> even (roundHalfEven z))"
  unfolding roundHalfEven_def Let_def by (auto; linarith)

subsection \<open>The lines of the block\<close>

lemma singleLine_entryLine: "singleLineAd ad \<Longrightarrow> singleLine (entryLine index ad)"
  by (simp add: entryLine_def singleLineAd_def singleLine_append singleLine_showNat
      singleLine_toFixed1 singleLine_Cons singleLine_Nil)

lemma singleLine_websiteLine: "singleLineAd ad \<Longrightarrow> singleLine (websiteLine ad)"
  by (simp add: websiteLine_def singleLineAd_def singleLine_append singleLine_Cons
      singleLine_Nil)

lemma formatAd_lines: "formatAd index ad = entryLine index ad @ newline @ websiteLine ad"
  by (simp add: formatAd_def entryLine_def websiteLine_def)

lemma splitLines_nonempty: "splitLines s \<noteq> []"
  by (induction s) (auto split: list.splits)

lemma splitLines_single: "singleLine s \<Longrightarrow> splitLines s = [s]"
  by (induction s) (auto simp: singleLine_def)

lemma splitLines_first: "singleLine s \<Longrightarrow> splitLines (s @ newline @ t) = s # splitLines t"
  by (induction s) (auto simp: singleLine_def newline_def)

lemma splitLines_join:
  assumes "xs \<noteq> []"
    and "\<forall>x \<in> set xs. singleLine (a x) \<and> singleLine (b x)"
  shows "splitLines (join newline (map (\<lambda>x. a x @ newline @ b x) xs))
           = concat (map (\<lambda>x. [a x, b x]) xs)"
  using assms
proof (induction xs)
  case Nil
  then show ?case by simp
next
  case (Cons x xs)
  show ?case
  proof (cases xs)
    case Nil
    then show ?thesis
      using Cons.prems by (simp add: splitLines_first splitLines_single)
  next
    case (Cons y ys)
    then have "splitLines (join newline (map (\<lambda>x. a x @ newline @ b x) xs))
                 = concat (map (\<lambda>x. [a x, b x]) xs)"
      using Cons.IH Cons.prems by simp
    moreover have "join newline (map (\<lambda>x. a x @ newline @ b x) (x # xs))
        = a x @ newline @ (b x @ newline @ join newline (map (\<lambda>x. a x @ newline @ b x) xs))"
      using Cons by simp
    ultimately show ?thesis
      using Cons.prems by (simp add: splitLines_first)
  qed
qed

lemma formatAdsContext_entries:
  "ads \<noteq> [] \<Longrightarrow>
   formatAdsContext ads = join newline (map (\<lambda>(i, ad). formatAd i ad) (enumerate 0 ads))"
  by (simp add: formatAdsContext_def)

lemma formatAdsContext_lines:
  assumes "ads \<noteq> []" and "\<forall>ad \<in> set ads. singleLineAd ad"
  shows "splitLines (formatAdsContext ads)
           = concat (map (\<lambda>(i, ad). [entryLine i ad, websiteLine ad]) (enumerate 0 ads))"
proof -
  let ?a = "\<lambda>(i, ad). entryLine i ad" and ?b = "\<lambda>(i :: nat, ad). websiteLine ad"
  have fmt: "(\<lambda>(i, ad). formatAd i ad) = (\<lambda>x. ?a x @ newline @ ?b x)"
    by (auto simp: formatAd_lines)
  have two: "(\<lambda>(i, ad). [entryLine i ad, websiteLine ad]) = (\<lambda>x. [?a x, ?b x])"
    by auto
  have ne: "enumerate 0 ads \<noteq> []"
    using assms(1) by (cases ads) simp_all
  have sl: "\<forall>x \<in> set (enumerate 0 ads). singleLine (?a x) \<and> singleLine (?b x)"
    using assms(2) by (auto simp: in_set_enumerate_eq singleLine_entryLine singleLine_websiteLine)
  show ?thesis
    unfolding formatAdsContext_entries [OF assms(1)] fmt two
    by (rule splitLines_join [OF ne sl])
qed

text \<open>
  C9. The context block of the empty sequence is the sentinel
  "No nearby businesses available.", which is not the empty string. The block of a
  non-empty sequence is its entries with a newline between neighbours, each an entry
  line, a newline and a website line; when the names, descriptions and URLs are free of newlines, the
  lines of the block are exactly these, business by business in order. The entry line
  carries the index counted from 1 as a decimal numeral, the name, the description and
  the distance in miles and in kilometers, each the double quotient printed with one
  digit after the point: the integer part as a decimal numeral, the point, and one digit,
  for the tenth nearest to the quotient (the upper of two). The website line is the
  label "   Website: " followed by the URL. The double quotient is the multiple of the
  spacing of the doubles at the exact quotient that is nearest to it, the even multiple
  of two.
\<close>

theorem context_block_format:
  "formatAdsContext [] = ''No nearby businesses available.''
   \<and> formatAdsContext [] \<noteq> []
   \<and> (ads \<noteq> [] \<longrightarrow>
        formatAdsContext ads
          = join newline
              (map (\<lambda>(i, ad). entryLine i ad @ newline @ websiteLine ad) (enumerate 0 ads)))
   \<and> join sep [s] = s
   \<and> join sep (s # t # ss) = s @ sep @ join sep (t # ss)
   \<and> (ads \<noteq> [] \<and> (\<forall>ad \<in> set ads. singleLineAd ad) \<longrightarrow>
        splitLines (formatAdsContext ads)
          = concat (map (\<lambda>(i, ad). [entryLine i ad, websiteLine ad]) (enumerate 0 ads)))
   \<and> entryLine i ad =
        showNat (i + 1) @ ''. '' @ businessName ad @ '' - '' @ description ad
        @ '' ('' @ toFixed1 (toDouble (distance ad / toDouble 1609.34)) @ '' mi / ''
        @ toFixed1 (toDouble (distance ad / 1000)) @ '' km away)''
   \<and> websiteLine ad = ''   Website: '' @ websiteUrl ad
   \<and> isDecimal n (showNat n)
   \<and> toFixed1 x =
        (if x < 0 then ''-'' else []) @ showNat (tenths x div 10) @ ''.'' @ showNat (tenths x mod 10)
   \<and> - 1 / 20 < real (tenths x) / 10 - \<bar>x\<bar> \<and> real (tenths x) / 10 - \<bar>x\<bar> \<le> 1 / 20
   \<and> toDouble y = 2 powi ulpExponent y * of_int (roundHalfEven (y / 2 powi ulpExponent y))
   \<and> (2 powi (- 1022) \<le> \<bar>y\<bar> \<longrightarrow>
        2 powi (ulpExponent y + 52) \<le> \<bar>y\<bar> \<and> \<bar>y\<bar> < 2 powi (ulpExponent y + 53))
   \<and> (0 < \<bar>y\<bar> \<and> \<bar>y\<bar> < 2 powi (- 1022) \<longrightarrow> ulpExponent y = - 1074)
   \<and> \<bar>z - of_int (roundHalfEven z)\<bar> \<le> 1 / 2
   \<and> (\<bar>z - of_int (roundHalfEven z)\<bar> = 1 / 2 \<longrightarrow> even (roundHalfEven z))"
proof -
  have block: "formatAdsContext ads
      = join newline (map (\<lambda>(i, ad). entryLine i ad @ newline @ websiteLine ad) (enumerate 0 ads))"
    if "ads \<noteq> []"
  proof -
    have "(\<lambda>(i, ad). formatAd i ad) = (\<lambda>(i, ad). entryLine i ad @ newline @ websiteLine ad)"
      by (simp add: formatAd_lines)
    then show ?thesis
      using that by (simp add: formatAdsContext_entries)
  qed
  have entry: "entryLine i ad =
        showNat (i + 1) @ ''. '' @ businessName ad @ '' - '' @ description ad
        @ '' ('' @ toFixed1 (toDouble (distance ad / toDouble 1609.34)) @ '' mi / ''
        @ toFixed1 (toDouble (distance ad / 1000)) @ '' km away)''"
    by (simp add: entryLine_def divDouble_def metersPerMile_def)
  have sentinel: "formatAdsContext [] = ''No nearby businesses available.''"
    by (simp add: formatAdsContext_def noNearby_def)
  have nonempty: "formatAdsContext [] \<noteq> []"
    by (simp add: formatAdsContext_def noNearby_def)
  have website: "websiteLine ad = ''   Website: '' @ websiteUrl ad"
    by (simp add: websiteLine_def)
  have dbl: "toDouble y = 2 powi ulpExponent y * of_int (roundHalfEven (y / 2 powi ulpExponent y))"
    by (simp add: toDouble_def)
  have lines: "splitLines (formatAdsContext ads)
          = concat (map (\<lambda>(i, ad). [entryLine i ad, websiteLine ad]) (enumerate 0 ads))"
    if "ads \<noteq> [] \<and> (\<forall>ad \<in> set ads. singleLineAd ad)"
    using that formatAdsContext_lines [of ads] by blast
  note fixed = toFixed1_digits [of x]
  note tenth = tenths_nearest [of x]
  note normal = ulpExponent_normal [of y]
  note round = roundHalfEven_nearest [of z]
  have subnormal: "ulpExponent y = - 1074" if "0 < \<bar>y\<bar> \<and> \<bar>y\<bar> < 2 powi (- 1022)"
    using that ulpExponent_subnormal [of y] by blast
  have joined: "join sep [s] = s" "join sep (s # t # ss) = s @ sep @ join sep (t # ss)"
    by simp_all
  from sentinel nonempty block joined lines entry website isDecimal_showNat [of n] fixed tenth
    dbl normal subnormal round
  show ?thesis
    by blast
qed

theorem context_block_format_witness:
  "splitLines (formatAdsContext twoNearby)
     = [''1. first - Coffee (0.2 mi / 0.3 km away)'', ''   Website: https://example.com'',
        ''2. second - Coffee (0.9 mi / 1.4 km away)'', ''   Website: https://example.com'']
   \<and> showNat 12 = ''12''
   \<and> divDouble 350 1000 = 3152519739159347 / 9007199254740992
   \<and> divDouble 1450 1000 = 6530219459687219 / 4503599627370496
   \<and> divDouble 350 metersPerMile = 3917779635327957 / 18014398509481984
   \<and> toFixed1 (divDouble 350 1000) = ''0.3''
   \<and> toFixed1 (divDouble 1450 1000) = ''1.4''
   \<and> toFixed1 (divDouble 250 1000) = ''0.3''"
proof -
  have q1: "divDouble 350 1000 = 3152519739159347 / 9007199254740992"
    and q2: "divDouble 1450 1000 = 6530219459687219 / 4503599627370496"
    and q3: "divDouble 250 1000 = 1 / 4"
    and m1: "divDouble 350 metersPerMile = 3917779635327957 / 18014398509481984"
    and m2: "divDouble 1450 metersPerMile = 2028850168294835 / 2251799813685248"
    by (simp_all add: divDouble_def metersPerMile_def toDouble_def ulpExponent_def
        floorLog2.simps roundHalfEven_def)
  have ne: "twoNearby \<noteq> []"
    by (simp add: twoNearby_def)
  have sl: "\<forall>ad \<in> set twoNearby. singleLineAd ad"
    by (simp add: twoNearby_def singleLineAd_def attachDistance_def withDistance_def
        Ad.extend_def exampleAd_def singleLine_Cons singleLine_Nil)
  have lines: "concat (map (\<lambda>(i, ad). [entryLine i ad, websiteLine ad]) (enumerate 0 twoNearby))
     = [''1. first - Coffee (0.2 mi / 0.3 km away)'', ''   Website: https://example.com'',
        ''2. second - Coffee (0.9 mi / 1.4 km away)'', ''   Website: https://example.com'']"
    by (simp add: twoNearby_def entryLine_def websiteLine_def q1 q2 m1 m2 toFixed1_def tenths_def
        showNat.simps digitChar_def attachDistance_def withDistance_def Ad.extend_def
        AdWithDistance.fields_def exampleAd_def exampleCalc_def)
  have twelve: "showNat 12 = ''12''"
    by (simp add: showNat.simps digitChar_def)
  have low: "toFixed1 (divDouble 350 1000) = ''0.3''"
    and mid: "toFixed1 (divDouble 1450 1000) = ''1.4''"
    and tie: "toFixed1 (divDouble 250 1000) = ''0.3''"
    unfolding q1 q2 q3
    by (simp_all add: toFixed1_def tenths_def showNat.simps digitChar_def)
  note inst = context_block_format [of twoNearby newline "[]" "[]" "[]" 0 "hd twoNearby" 12
      "divDouble 350 1000" "350 / 1000" 0]
  have "splitLines (formatAdsContext twoNearby)
          = concat (map (\<lambda>(i, ad). [entryLine i ad, websiteLine ad]) (enumerate 0 twoNearby))"
    using ne sl inst by blast
  then have split: "splitLines (formatAdsContext twoNearby)
     = [''1. first - Coffee (0.2 mi / 0.3 km away)'', ''   Website: https://example.com'',
        ''2. second - Coffee (0.9 mi / 1.4 km away)'', ''   Website: https://example.com'']"
    using lines by (rule trans)
  show ?thesis
    using split twelve q1 q2 m1 low mid tie by (intro conjI)
qed

end
